theory Spec2Isabelle
  imports Complex_Main "HOL-Library.Word"
begin

unbundle bit_operations_syntax

section \<open>Values of the embedding\<close>

text \<open>
  The module \<^verbatim>\<open>loco_mujoco/utils/reward.py\<close> computes with numpy arrays of floating-point
  numbers. The embedding reads every float as a real number: rounding, overflow to
  infinity, underflow to zero and NaN are outside the model. Observations (\<^verbatim>\<open>state\<close>,
  \<^verbatim>\<open>next_state\<close>) and actions are one-dimensional arrays, modelled as lists of reals.
  A configured bound or mean may be a plain number or a one-dimensional array, so the
  operands of numpy's elementwise arithmetic are values of the type \<open>ndarray\<close>.
  Every exception the code can raise is a value of the type \<open>error\<close>, returned as \<open>Inl\<close>.
\<close>

datatype error =
    IndexError
  | ValueError
  | ShiftCountError
  | Exception string

datatype ndarray = Scalar real | Array "real list"

definition and_then :: "error + 'a \<Rightarrow> ('a \<Rightarrow> error + 'b) \<Rightarrow> error + 'b" where
  "and_then m f = (case m of Inl e \<Rightarrow> Inl e | Inr x \<Rightarrow> f x)"

text \<open>
  Elementwise binary operations with numpy's broadcasting on shapes \<open>()\<close> and \<open>(n,)\<close>: a
  number is spread over an array, two arrays must have the same length unless one of them
  has length 1; any other pair of shapes raises ValueError.
\<close>

fun broadcast2 :: "(real \<Rightarrow> real \<Rightarrow> real) \<Rightarrow> ndarray \<Rightarrow> ndarray \<Rightarrow> error + ndarray" where
  "broadcast2 f (Scalar a) (Scalar b) = Inr (Scalar (f a b))"
| "broadcast2 f (Scalar a) (Array ys) = Inr (Array (map (f a) ys))"
| "broadcast2 f (Array xs) (Scalar b) = Inr (Array (map (\<lambda>x. f x b) xs))"
| "broadcast2 f (Array xs) (Array ys) =
     (if length xs = length ys then Inr (Array (map2 f xs ys))
      else if length xs = 1 then Inr (Array (map (f (hd xs)) ys))
      else if length ys = 1 then Inr (Array (map (\<lambda>x. f x (hd ys)) xs))
      else Inl ValueError)"

fun ufunc :: "(real \<Rightarrow> real) \<Rightarrow> ndarray \<Rightarrow> ndarray" where
  "ufunc f (Scalar a) = Scalar (f a)"
| "ufunc f (Array xs) = Array (map f xs)"

fun np_sum :: "ndarray \<Rightarrow> real" where
  "np_sum (Scalar a) = a"
| "np_sum (Array xs) = sum_list xs"

text \<open>
  A comparison yields a boolean array; in the products of the source its entries count
  as 1 (True) and 0 (False), which is how they are represented here.
\<close>

definition np_less :: "real \<Rightarrow> real \<Rightarrow> real" where
  "np_less a b = (if a < b then 1 else 0)"

definition np_greater :: "real \<Rightarrow> real \<Rightarrow> real" where
  "np_greater a b = (if a > b then 1 else 0)"

definition np_abs :: "real \<Rightarrow> real" where
  "np_abs x = \<bar>x\<bar>"

definition np_square :: "real \<Rightarrow> real" where
  "np_square x = x * x"

text \<open>Indexing \<^verbatim>\<open>state[i]\<close> with a Python integer: negative indices count from the end.\<close>

definition getitem :: "real list \<Rightarrow> int \<Rightarrow> error + real" where
  "getitem xs i =
     (if 0 \<le> i \<and> i < int (length xs) then Inr (xs ! nat i)
      else if - int (length xs) \<le> i \<and> i < 0 then Inr (xs ! nat (i + int (length xs)))
      else Inl IndexError)"

text \<open>Indexing with an array of indices, \<^verbatim>\<open>state[idx]\<close>: one entry for each index.\<close>

fun getitems :: "real list \<Rightarrow> int list \<Rightarrow> error + real list" where
  "getitems xs [] = Inr []"
| "getitems xs (i # is) =
     and_then (getitem xs i) (\<lambda>v. and_then (getitems xs is) (\<lambda>vs. Inr (v # vs)))"

text \<open>
  The slice \<^verbatim>\<open>xs[start:]\<close>: a negative start counts from the end and every start is
  clipped to the array, so that \<^verbatim>\<open>xs[-0:]\<close> is the whole array.
\<close>

definition slice_from :: "'a list \<Rightarrow> int \<Rightarrow> 'a list" where
  "slice_from xs start =
     (let n = int (length xs);
          s = (if start < 0 then max (start + n) 0 else min start n)
      in drop (nat s) xs)"

text \<open>\<^verbatim>\<open>astype(int)\<close> drops the fractional part of each entry, towards zero.\<close>

definition astype_int :: "real \<Rightarrow> int" where
  "astype_int x = (if 0 \<le> x then \<lfloor>x\<rfloor> else \<lceil>x\<rceil>)"

text \<open>
  \<^verbatim>\<open>np.packbits(a, bitorder='big')\<close> on a one-dimensional array: every entry other than 0
  is a set bit, eight entries make one byte with the first entry as the most significant
  bit, and the last byte is shifted left over the missing entries.
\<close>

definition pack_byte :: "int list \<Rightarrow> 8 word" where
  "pack_byte bits =
     push_bit (8 - length bits)
       (foldl (\<lambda>build b. push_bit 1 build OR (if b \<noteq> 0 then 1 else 0)) 0 bits)"

fun packbits :: "int list \<Rightarrow> 8 word list" where
  "packbits [] = []"
| "packbits (b # bs) = pack_byte (take 8 (b # bs)) # packbits (drop 7 bs)"

text \<open>
  \<^verbatim>\<open>bytes >> k\<close> for a Python integer \<open>k\<close>. For a negative count numpy gives no result that
  holds across its versions (an OverflowError, or zeros), so the model reports it as
  \<open>ShiftCountError\<close>.
\<close>

definition right_shift :: "8 word list \<Rightarrow> int \<Rightarrow> error + 8 word list" where
  "right_shift ws k =
     (if k < 0 then Inl ShiftCountError else Inr (map (drop_bit (nat k)) ws))"

text \<open>\<^verbatim>\<open>ind[0]\<close>: the first byte, an IndexError when there is none.\<close>

fun first_item :: "'a list \<Rightarrow> error + 'a" where
  "first_item [] = Inl IndexError"
| "first_item (x # xs) = Inr x"

text \<open>Indexing a Python sequence with an unsigned index.\<close>

definition list_item :: "'a list \<Rightarrow> nat \<Rightarrow> error + 'a" where
  "list_item xs i = (if i < length xs then Inr (xs ! i) else Inl IndexError)"

text \<open>\<^verbatim>\<open>a.reshape((3, 3))\<close>: three rows of three, for an array of nine entries only.\<close>

definition reshape33 :: "real list \<Rightarrow> error + real list list" where
  "reshape33 xs =
     (if length xs = 9 then Inr [take 3 xs, take 3 (drop 3 xs), drop 6 xs]
      else Inl ValueError)"

text \<open>\<^verbatim>\<open>np.linalg.norm\<close> of a one-dimensional array: the Euclidean norm.\<close>

definition linalg_norm :: "real list \<Rightarrow> real" where
  "linalg_norm xs = sqrt (sum_list (map (\<lambda>x. x * x) xs))"

section \<open>The reward functions\<close>

subsection \<open>NoReward, PosReward, CustomReward\<close>

definition NoReward_call :: "real list \<Rightarrow> real list \<Rightarrow> real list \<Rightarrow> bool \<Rightarrow> error + real" where
  "NoReward_call state action next_state absorbing = Inr 0"

text \<open>The position index is one index or an array of indices.\<close>

datatype index = Idx int | Idxs "int list"

record PosReward =
  pos_idx :: index

definition PosReward_init :: "index \<Rightarrow> PosReward" where
  "PosReward_init pos_idx' = \<lparr>pos_idx = pos_idx'\<rparr>"

definition PosReward_call ::
  "PosReward \<Rightarrow> real list \<Rightarrow> real list \<Rightarrow> real list \<Rightarrow> bool \<Rightarrow> error + ndarray" where
  "PosReward_call self state action next_state absorbing =
     (case pos_idx self of
        Idx i \<Rightarrow> and_then (getitem state i) (\<lambda>pos. Inr (Scalar pos))
      | Idxs is \<Rightarrow> and_then (getitems state is) (\<lambda>pos. Inr (Array pos)))"

record CustomReward =
  reward_callback :: "(real list \<Rightarrow> real list \<Rightarrow> real list \<Rightarrow> real) option"

definition CustomReward_init ::
  "(real list \<Rightarrow> real list \<Rightarrow> real list \<Rightarrow> real) option \<Rightarrow> CustomReward" where
  "CustomReward_init reward_callback' = \<lparr>reward_callback = reward_callback'\<rparr>"

definition CustomReward_call ::
  "CustomReward \<Rightarrow> real list \<Rightarrow> real list \<Rightarrow> real list \<Rightarrow> bool \<Rightarrow> error + real" where
  "CustomReward_call self state action next_state absorbing =
     (case reward_callback self of
        Some callback \<Rightarrow> Inr (callback state action next_state)
      | None \<Rightarrow> Inr 0)"

subsection \<open>TargetVelocityReward\<close>

record TargetVelocityReward =
  target_vel :: real
  x_vel_idx :: int


definition TargetVelocityReward_call ::
  "TargetVelocityReward \<Rightarrow> real list \<Rightarrow> real list \<Rightarrow> real list \<Rightarrow> bool \<Rightarrow> error + real" where
  "TargetVelocityReward_call self state action next_state absorbing =
     and_then (getitem state (x_vel_idx self)) (\<lambda>x_vel.
       Inr (exp (- np_square (x_vel - target_vel self))))"

subsection \<open>MultiTargetVelocityReward\<close>

record MultiTargetVelocityReward =
  target_vel :: real
  env_id_len :: int
  scalings :: "real list"
  x_vel_idx :: int

definition MultiTargetVelocityReward_init ::
  "real \<Rightarrow> int \<Rightarrow> int \<Rightarrow> real list \<Rightarrow> MultiTargetVelocityReward" where
  "MultiTargetVelocityReward_init target_velocity x_vel_idx' env_id_len' scalings' =
     \<lparr>target_vel = target_velocity, env_id_len = env_id_len', scalings = scalings',
      x_vel_idx = x_vel_idx'\<rparr>"

text \<open>
  The conversion of the binary array to an index:
  \<^verbatim>\<open>ind = np.packbits(env_id.astype(int), bitorder='big') >> (8 - env_id.shape[0])\<close>
  followed by \<^verbatim>\<open>ind = ind[0]\<close>.
\<close>

definition env_id_index :: "real list \<Rightarrow> error + nat" where
  "env_id_index env_id =
     and_then (right_shift (packbits (map astype_int env_id)) (8 - int (length env_id)))
       (\<lambda>ind. and_then (first_item ind) (\<lambda>ind. Inr (unat ind)))"

definition MultiTargetVelocityReward_call ::
  "MultiTargetVelocityReward \<Rightarrow> real list \<Rightarrow> real list \<Rightarrow> real list \<Rightarrow> bool
     \<Rightarrow> error + real" where
  "MultiTargetVelocityReward_call self state action next_state absorbing =
     and_then (getitem state (x_vel_idx self)) (\<lambda>x_vel.
       let env_id = slice_from state (- env_id_len self) in
       and_then (env_id_index env_id) (\<lambda>ind.
       and_then (list_item (scalings self) ind) (\<lambda>scaling.
         let target_vel = target_vel self * scaling in
         Inr (exp (- np_square (x_vel - target_vel))))))"

text \<open>
  The reading the specification gives of the same bits: a big-endian binary integer,
  most significant bit first.
\<close>

definition big_endian_integer :: "nat list \<Rightarrow> nat" where
  "big_endian_integer bits = foldl (\<lambda>acc b. 2 * acc + b) 0 bits"

subsection \<open>VelocityVectorReward\<close>

text \<open>
  \<^verbatim>\<open>mat2angle_xy\<close> is imported from \<^verbatim>\<open>loco_mujoco.utils.math\<close>; it is a parameter of the
  model, a function from the 3x3 matrix (a list of three rows) to an angle.
\<close>

record VelocityVectorReward =
  x_vel_idx :: int
  y_vel_idx :: int
  rot_mat_idx :: "int list"
  goal_vel_idx :: int

definition VelocityVectorReward_init ::
  "int \<Rightarrow> int \<Rightarrow> int list \<Rightarrow> int \<Rightarrow> VelocityVectorReward" where
  "VelocityVectorReward_init x_vel_idx' y_vel_idx' rot_mat_idx' goal_vel_idx' =
     \<lparr>x_vel_idx = x_vel_idx', y_vel_idx = y_vel_idx', rot_mat_idx = rot_mat_idx',
      goal_vel_idx = goal_vel_idx'\<rparr>"

definition VelocityVectorReward_call ::
  "(real list list \<Rightarrow> real) \<Rightarrow> VelocityVectorReward
     \<Rightarrow> real list \<Rightarrow> real list \<Rightarrow> real list \<Rightarrow> bool \<Rightarrow> error + real" where
  "VelocityVectorReward_call mat2angle_xy self state action next_state absorbing =
     and_then (getitem state (x_vel_idx self)) (\<lambda>x_vel.
     and_then (getitem state (y_vel_idx self)) (\<lambda>y_vel.
       let curr_velocity_xy = [x_vel, y_vel] in
       and_then (getitems state (rot_mat_idx self)) (\<lambda>entries.
       and_then (reshape33 entries) (\<lambda>rot_mat.
         let angle = mat2angle_xy rot_mat;
             angle = angle - pi / 2;
             norm_x = cos angle;
             norm_y = sin angle
         in
         and_then (getitem state (goal_vel_idx self)) (\<lambda>goal_vel.
           let des_vel = map (\<lambda>n. goal_vel * n) [norm_x, norm_y] in
           Inr (exp (- 5 * linalg_norm (map2 (-) curr_velocity_xy des_vel))))))))"

subsection \<open>OutOfBoundsActionCost\<close>

record OutOfBoundsActionCost =
  lower_bound :: ndarray
  upper_bound :: ndarray
  reward_scale :: real
  const_cost :: real
  func :: "real \<Rightarrow> real"

definition OutOfBoundsActionCost_init ::
  "ndarray \<Rightarrow> ndarray \<Rightarrow> real \<Rightarrow> real \<Rightarrow> string \<Rightarrow> error + OutOfBoundsActionCost" where
  "OutOfBoundsActionCost_init lower_bound' upper_bound' reward_scale' const_cost' func_type =
     (if func_type = ''abs'' then
        Inr \<lparr>lower_bound = lower_bound', upper_bound = upper_bound',
             reward_scale = reward_scale', const_cost = const_cost', func = np_abs\<rparr>
      else if func_type = ''squared'' then
        Inr \<lparr>lower_bound = lower_bound', upper_bound = upper_bound',
             reward_scale = reward_scale', const_cost = const_cost', func = np_square\<rparr>
      else Inl (Exception (func_type @ '' is not a valid function type!'')))"

definition OutOfBoundsActionCost_call ::
  "OutOfBoundsActionCost \<Rightarrow> real list \<Rightarrow> real list \<Rightarrow> real list \<Rightarrow> bool \<Rightarrow> error + real" where
  "OutOfBoundsActionCost_call self state action next_state absorbing =
     and_then (broadcast2 (-) (lower_bound self) (Array action)) (\<lambda>below.
     and_then (broadcast2 np_less (Array action) (lower_bound self)) (\<lambda>is_below.
     and_then (broadcast2 (*) (ufunc (\<lambda>x. x + const_cost self) below) is_below) (\<lambda>lower_cost.
     and_then (broadcast2 (-) (Array action) (upper_bound self)) (\<lambda>above.
     and_then (broadcast2 np_greater (Array action) (upper_bound self)) (\<lambda>is_above.
     and_then (broadcast2 (*) (ufunc (\<lambda>x. x + const_cost self) above) is_above) (\<lambda>upper_cost.
     and_then (broadcast2 (+) lower_cost upper_cost) (\<lambda>cost.
       Inr (- 1 * reward_scale self * np_sum (ufunc (func self) cost)))))))))"

subsection \<open>ActionCost\<close>

record ActionCost =
  action_mean :: ndarray
  reward_scale :: real
  func :: "real \<Rightarrow> real"

definition ActionCost_init :: "ndarray \<Rightarrow> real \<Rightarrow> string \<Rightarrow> error + ActionCost" where
  "ActionCost_init action_mean' reward_scale' func_type =
     (if func_type = ''abs'' then
        Inr \<lparr>action_mean = action_mean', reward_scale = reward_scale', func = np_abs\<rparr>
      else if func_type = ''squared'' then
        Inr \<lparr>action_mean = action_mean', reward_scale = reward_scale', func = np_square\<rparr>
      else Inl (Exception (func_type @ '' is not a valid function type!'')))"

definition ActionCost_call ::
  "ActionCost \<Rightarrow> real list \<Rightarrow> real list \<Rightarrow> real list \<Rightarrow> bool \<Rightarrow> error + real" where
  "ActionCost_call self state action next_state absorbing =
     and_then (broadcast2 (-) (Array action) (action_mean self)) (\<lambda>diff.
       Inr (- 1 * reward_scale self * np_sum (ufunc (func self) diff)))"

subsection \<open>InBoundsBonus\<close>

record InBoundsBonus =
  lower_bound :: ndarray
  upper_bound :: ndarray
  reward_scale :: real
  bonus_val :: real

definition InBoundsBonus_init :: "ndarray \<Rightarrow> ndarray \<Rightarrow> real \<Rightarrow> real \<Rightarrow> InBoundsBonus" where
  "InBoundsBonus_init lower_bound' upper_bound' reward_scale' bonus_val' =
     \<lparr>lower_bound = lower_bound', upper_bound = upper_bound',
      reward_scale = reward_scale', bonus_val = bonus_val'\<rparr>"

definition InBoundsBonus_call ::
  "InBoundsBonus \<Rightarrow> real list \<Rightarrow> real list \<Rightarrow> real list \<Rightarrow> bool \<Rightarrow> error + real" where
  "InBoundsBonus_call self state action next_state absorbing =
     and_then (broadcast2 np_greater (upper_bound self) (Array action)) (\<lambda>below_upper.
     and_then (broadcast2 np_greater (Array action) (lower_bound self)) (\<lambda>above_lower.
     and_then (broadcast2 (*) below_upper above_lower) (\<lambda>inside.
       let bonus = ufunc (\<lambda>x. bonus_val self * x) inside in
       Inr (reward_scale self * np_sum bonus))))"

subsection \<open>ModulationDifferencePenalty\<close>

text \<open>
  The two collaborators are given by their methods: a predictor by
  \<^verbatim>\<open>predict_cycle_percentage\<close>, the modulator by \<^verbatim>\<open>modulate_action\<close>. The cached
  \<^verbatim>\<open>cycle_progress\<close> is the only field a call assigns, so a call returns the reward together
  with the object after the call.
\<close>

record ModulationDifferencePenalty =
  cycle_percentage_predictors :: "(real list \<Rightarrow> real) list"
  action_space_modulator :: "real list \<Rightarrow> real list \<Rightarrow> real list"
  cycle_progress :: "real list"
  reward_scale :: real
  func :: "real \<Rightarrow> real"

definition ModulationDifferencePenalty_init ::
  "(real list \<Rightarrow> real list \<Rightarrow> real list) \<Rightarrow> (real list \<Rightarrow> real) list \<Rightarrow> real \<Rightarrow> string
     \<Rightarrow> error + ModulationDifferencePenalty" where
  "ModulationDifferencePenalty_init action_space_modulator' cycle_percentage_predictors'
       reward_scale' func_type =
     (if func_type = ''abs'' then
        Inr \<lparr>cycle_percentage_predictors = cycle_percentage_predictors',
             action_space_modulator = action_space_modulator',
             cycle_progress = replicate (length cycle_percentage_predictors') 0,
             reward_scale = reward_scale', func = np_abs\<rparr>
      else if func_type = ''squared'' then
        Inr \<lparr>cycle_percentage_predictors = cycle_percentage_predictors',
             action_space_modulator = action_space_modulator',
             cycle_progress = replicate (length cycle_percentage_predictors') 0,
             reward_scale = reward_scale', func = np_square\<rparr>
      else Inl (Exception (func_type @ '' is not a valid function type!'')))"

definition ModulationDifferencePenalty_call ::
  "ModulationDifferencePenalty \<Rightarrow> real list \<Rightarrow> real list \<Rightarrow> real list \<Rightarrow> bool
     \<Rightarrow> (error + real) \<times> ModulationDifferencePenalty" where
  "ModulationDifferencePenalty_call self state action next_state absorbing =
     (let self = self\<lparr>cycle_progress :=
                   map (\<lambda>channel. channel state) (cycle_percentage_predictors self)\<rparr>;
          modulated_action = action_space_modulator self action (cycle_progress self)
      in (and_then (broadcast2 (-) (Array action) (Array modulated_action))
            (\<lambda>modulated_action_diff.
               Inr (- 1 * reward_scale self * np_sum (ufunc (func self) modulated_action_diff))),
          self))"

subsection \<open>The common interface\<close>

text \<open>
  A reward function is an object of one of the ten classes. \<open>call\<close> is the method
  \<^verbatim>\<open>__call__\<close> of the object's class; it returns the reward (or the exception raised) and
  the object after the call. \<open>reset_state\<close> is \<^verbatim>\<open>RewardInterface.reset_state\<close>, whose body
  is \<^verbatim>\<open>pass\<close>; no class of the module defines a method of that name, so it is the method
  every object has.
\<close>

datatype RewardInterface =
    NoReward
  | Pos PosReward
  | Custom CustomReward
  | TargetVelocity TargetVelocityReward
  | MultiTargetVelocity MultiTargetVelocityReward
  | VelocityVector VelocityVectorReward
  | OutOfBounds OutOfBoundsActionCost
  | Action ActionCost
  | InBounds InBoundsBonus
  | ModulationDifference ModulationDifferencePenalty

definition as_array :: "error + real \<Rightarrow> error + ndarray" where
  "as_array r = and_then r (\<lambda>x. Inr (Scalar x))"

fun call ::
  "(real list list \<Rightarrow> real) \<Rightarrow> RewardInterface \<Rightarrow> real list \<Rightarrow> real list \<Rightarrow> real list \<Rightarrow> bool
     \<Rightarrow> (error + ndarray) \<times> RewardInterface" where
  "call m NoReward s a s' ab = (as_array (NoReward_call s a s' ab), NoReward)"
| "call m (Pos self) s a s' ab = (PosReward_call self s a s' ab, Pos self)"
| "call m (Custom self) s a s' ab = (as_array (CustomReward_call self s a s' ab), Custom self)"
| "call m (TargetVelocity self) s a s' ab =
     (as_array (TargetVelocityReward_call self s a s' ab), TargetVelocity self)"
| "call m (MultiTargetVelocity self) s a s' ab =
     (as_array (MultiTargetVelocityReward_call self s a s' ab), MultiTargetVelocity self)"
| "call m (VelocityVector self) s a s' ab =
     (as_array (VelocityVectorReward_call m self s a s' ab), VelocityVector self)"
| "call m (OutOfBounds self) s a s' ab =
     (as_array (OutOfBoundsActionCost_call self s a s' ab), OutOfBounds self)"
| "call m (Action self) s a s' ab = (as_array (ActionCost_call self s a s' ab), Action self)"
| "call m (InBounds self) s a s' ab =
     (as_array (InBoundsBonus_call self s a s' ab), InBounds self)"
| "call m (ModulationDifference self) s a s' ab =
     (case ModulationDifferencePenalty_call self s a s' ab of
        (r, self') \<Rightarrow> (as_array r, ModulationDifference self'))"

definition reset_state :: "RewardInterface \<Rightarrow> RewardInterface" where
  "reset_state self = self"

section \<open>Vocabulary of the properties\<close>

text \<open>
  A configured bound or mean \<open>fits\<close> an action when it is a number or an array with one
  entry for each component of the action; \<open>component b i\<close> is then the value that applies
  to component \<open>i\<close>.
\<close>

fun fits :: "ndarray \<Rightarrow> real list \<Rightarrow> bool" where
  "fits (Scalar b) action = True"
| "fits (Array bs) action = (length bs = length action)"

fun component :: "ndarray \<Rightarrow> nat \<Rightarrow> real" where
  "component (Scalar b) i = b"
| "component (Array bs) i = bs ! i"

text \<open>
  The two costs of component \<open>i\<close> of an action as the specification words them: the
  distance below the lower bound plus the constant cost where the component is below the
  bound and 0 elsewhere, and the same above the upper bound.
\<close>

definition lower_cost :: "ndarray \<Rightarrow> real \<Rightarrow> real list \<Rightarrow> nat \<Rightarrow> real" where
  "lower_cost lb c action i =
     (if action ! i < component lb i then component lb i - action ! i + c else 0)"

definition upper_cost :: "ndarray \<Rightarrow> real \<Rightarrow> real list \<Rightarrow> nat \<Rightarrow> real" where
  "upper_cost ub c action i =
     (if action ! i > component ub i then action ! i - component ub i + c else 0)"

section \<open>Helper lemmas\<close>

lemma and_then_Inr [simp]: "and_then (Inr x) f = f x"
  by (simp add: and_then_def)

lemma and_then_Inl [simp]: "and_then (Inl e) f = Inl e"
  by (simp add: and_then_def)

lemma sum_list_map_upt_lessThan: "sum_list (map g [0..<n]) = (\<Sum>i<n. g i)"
  by (simp add: interv_sum_list_conv_sum_set_nat atLeast0LessThan)

lemma broadcast2_left_fits:
  "fits b xs \<Longrightarrow>
   broadcast2 f (Array xs) b = Inr (Array (map (\<lambda>i. f (xs ! i) (component b i)) [0..<length xs]))"
  by (cases b) (auto intro!: nth_equalityI)

lemma broadcast2_right_fits:
  "fits b xs \<Longrightarrow>
   broadcast2 f b (Array xs) = Inr (Array (map (\<lambda>i. f (component b i) (xs ! i)) [0..<length xs]))"
  by (cases b) (auto intro!: nth_equalityI)

lemma broadcast2_upt:
  "broadcast2 f (Array (map g [0..<n])) (Array (map h [0..<n])) =
     Inr (Array (map (\<lambda>i. f (g i) (h i)) [0..<n]))"
  by (auto intro!: nth_equalityI)

section \<open>ActionCost\<close>

text \<open>
  Claim C8. For every action and every mean that fits it, \<open>ActionCost_call\<close> returns
  \<open>- reward_scale * sum (func (action - action_mean))\<close>, the sum taken over the components
  of the action. With the mean \<open>[0, 0]\<close>, scale 1 and the function type \<open>abs\<close>, the action
  \<open>[1, -1]\<close> gets the reward \<open>-2\<close>.
\<close>

theorem ActionCost_call_formula:
  "(fits (action_mean self) action \<longrightarrow>
      ActionCost_call self state action next_state absorbing =
        Inr (- ActionCost.reward_scale self *
               (\<Sum>i<length action.
                  ActionCost.func self (action ! i - component (action_mean self) i))))
   \<and> and_then (ActionCost_init (Array [0, 0]) 1 ''abs'')
        (\<lambda>self. ActionCost_call self state [1, - 1] next_state absorbing) = Inr (- 2)"
proof (intro conjI impI)
  assume "fits (action_mean self) action"
  then show "ActionCost_call self state action next_state absorbing =
        Inr (- ActionCost.reward_scale self *
               (\<Sum>i<length action.
                  ActionCost.func self (action ! i - component (action_mean self) i)))"
    by (simp add: ActionCost_call_def broadcast2_left_fits sum_list_map_upt_lessThan comp_def)
next
  show "and_then (ActionCost_init (Array [0, 0]) 1 ''abs'')
        (\<lambda>self. ActionCost_call self state [1, - 1] next_state absorbing) = Inr (- 2)"
    by (simp add: ActionCost_init_def ActionCost_call_def np_abs_def)
qed

theorem ActionCost_call_formula_witness:
  "fits (Array [1, 2]) [3, 0] \<and>
   ActionCost_call \<lparr>action_mean = Array [1, 2], reward_scale = 2, func = np_square\<rparr>
       [] [3, 0] [] False = Inr (- 16)"
  using ActionCost_call_formula
    [of "\<lparr>action_mean = Array [1, 2], reward_scale = 2, func = np_square\<rparr>" "[3, 0]" "[]" "[]" False]
  by (simp add: np_square_def lessThan_Suc numeral_2_eq_2)

section \<open>OutOfBoundsActionCost\<close>










section \<open>InBoundsBonus\<close>

lemma inside_product:
  "b * (np_greater u a * np_greater a l) = (if l < a \<and> a < u then b else 0)"
  by (simp add: np_greater_def)

text \<open>
  Claim C6. For bounds that fit the action, \<open>InBoundsBonus_call\<close> returns the scale times
  the sum over the components of the action of \<open>bonus_val\<close> where the component lies
  strictly between its bounds and of 0 elsewhere, so a component equal to a bound earns
  nothing. With the bounds 0 and 1, bonus 1 and scale 1, the action \<open>[0.5, 1.5]\<close> gets the
  reward 1.
\<close>

theorem InBoundsBonus_call_bonus:
  "(fits (InBoundsBonus.lower_bound self) action \<and> fits (InBoundsBonus.upper_bound self) action \<longrightarrow>
      InBoundsBonus_call self state action next_state absorbing =
        Inr (InBoundsBonus.reward_scale self *
               (\<Sum>i<length action.
                  if component (InBoundsBonus.lower_bound self) i < action ! i
                     \<and> action ! i < component (InBoundsBonus.upper_bound self) i
                  then bonus_val self else 0)))
   \<and> InBoundsBonus_call (InBoundsBonus_init (Scalar 0) (Scalar 1) 1 1)
        state [0.5, 1.5] next_state absorbing = Inr 1"
proof (intro conjI impI)
  assume "fits (InBoundsBonus.lower_bound self) action \<and> fits (InBoundsBonus.upper_bound self) action"
  then show "InBoundsBonus_call self state action next_state absorbing =
        Inr (InBoundsBonus.reward_scale self *
               (\<Sum>i<length action.
                  if component (InBoundsBonus.lower_bound self) i < action ! i
                     \<and> action ! i < component (InBoundsBonus.upper_bound self) i
                  then bonus_val self else 0))"
    by (simp add: InBoundsBonus_call_def broadcast2_left_fits broadcast2_right_fits
        broadcast2_upt sum_list_map_upt_lessThan comp_def inside_product
        del: broadcast2.simps)
next
  show "InBoundsBonus_call (InBoundsBonus_init (Scalar 0) (Scalar 1) 1 1)
        state [0.5, 1.5] next_state absorbing = Inr 1"
    by (simp add: InBoundsBonus_call_def InBoundsBonus_init_def np_greater_def)
qed

theorem InBoundsBonus_call_bonus_witness:
  "fits (Array [0, 0, 0]) [0, 1, 2] \<and> fits (Scalar 2) [0, 1, 2] \<and>
   InBoundsBonus_call
     \<lparr>InBoundsBonus.lower_bound = Array [0, 0, 0], upper_bound = Scalar 2,
      reward_scale = 3, bonus_val = 5\<rparr> [] [0, 1, 2] [] True = Inr 15"
  using InBoundsBonus_call_bonus
    [of "\<lparr>InBoundsBonus.lower_bound = Array [0, 0, 0], upper_bound = Scalar 2,
          reward_scale = 3, bonus_val = 5\<rparr>" "[0, 1, 2]" "[]" "[]" True]
  by (simp add: lessThan_Suc numeral_3_eq_3)

section \<open>The penalty-function selector\<close>

text \<open>
  Claim C3. A function type other than \<open>abs\<close> and \<open>squared\<close> makes each of the three
  constructors that take one raise the exception whose message names the function type;
  no object is constructed, so no penalty function is chosen in its place and nothing can
  be called.
\<close>

theorem unknown_func_type_raises:
  assumes "func_type \<noteq> ''abs''" and "func_type \<noteq> ''squared''"
  shows "OutOfBoundsActionCost_init lb ub scale c func_type =
           Inl (Exception (func_type @ '' is not a valid function type!''))
       \<and> ActionCost_init mean scale func_type =
           Inl (Exception (func_type @ '' is not a valid function type!''))
       \<and> ModulationDifferencePenalty_init modulator predictors scale func_type =
           Inl (Exception (func_type @ '' is not a valid function type!''))"
  using assms
  by (simp add: OutOfBoundsActionCost_init_def ActionCost_init_def
      ModulationDifferencePenalty_init_def)

theorem unknown_func_type_raises_witness:
  "''bogus'' \<noteq> ''abs'' \<and> ''bogus'' \<noteq> ''squared''
   \<and> OutOfBoundsActionCost_init (Scalar 0) (Scalar 1) 1 0 ''bogus'' =
       Inl (Exception ''bogus is not a valid function type!'')
   \<and> ActionCost_init (Array [0, 0]) 1 ''bogus'' =
       Inl (Exception ''bogus is not a valid function type!'')
   \<and> ModulationDifferencePenalty_init (\<lambda>action progress. action) [] 1 ''bogus'' =
       Inl (Exception ''bogus is not a valid function type!'')"
  using unknown_func_type_raises
    [of "''bogus''" "Scalar 0" "Scalar 1" 1 0 "Array [0, 0]" "\<lambda>action progress. action" "[]"]
  by simp

section \<open>TargetVelocityReward\<close>





section \<open>ModulationDifferencePenalty\<close>

lemma ModulationDifferencePenalty_call_state:
  "snd (ModulationDifferencePenalty_call self state action next_state absorbing) =
     self\<lparr>cycle_progress := map (\<lambda>channel. channel state) (cycle_percentage_predictors self)\<rparr>"
  by (simp add: ModulationDifferencePenalty_call_def Let_def)

lemma ModulationDifferencePenalty_call_reward:
  "fst (ModulationDifferencePenalty_call self state action next_state absorbing) =
     and_then
       (broadcast2 (-) (Array action)
          (Array (action_space_modulator self action
                    (map (\<lambda>channel. channel state) (cycle_percentage_predictors self)))))
       (\<lambda>diff. Inr (- 1 * ModulationDifferencePenalty.reward_scale self
                       * np_sum (ufunc (ModulationDifferencePenalty.func self) diff)))"
  by (simp add: ModulationDifferencePenalty_call_def Let_def)

text \<open>
  Claim C5. A call of \<open>ModulationDifferencePenalty_call\<close> leaves the object with
  \<open>cycle_progress\<close> equal to the list of the predictors' results on the observation of this
  call, in the predictors' order, whatever was cached before. When the modulated action has
  the length of the action, the reward is
  \<open>- reward_scale * sum (func (action - modulated action))\<close>, the modulator being given the
  new cycle progress. When a second call is made with an observation on which the
  predictors give other results, the cached list after the second call differs from the
  one after the first.
\<close>

theorem ModulationDifferencePenalty_call_caches:
  "cycle_progress (snd (ModulationDifferencePenalty_call self state action next_state absorbing)) =
     map (\<lambda>channel. channel state) (cycle_percentage_predictors self)
   \<and> (length (action_space_modulator self action
                (map (\<lambda>channel. channel state) (cycle_percentage_predictors self)))
        = length action \<longrightarrow>
      fst (ModulationDifferencePenalty_call self state action next_state absorbing) =
        Inr (- ModulationDifferencePenalty.reward_scale self *
               (\<Sum>i<length action. ModulationDifferencePenalty.func self
                  (action ! i
                   - action_space_modulator self action
                       (map (\<lambda>channel. channel state) (cycle_percentage_predictors self)) ! i))))
   \<and> (map (\<lambda>channel. channel state) (cycle_percentage_predictors self)
        \<noteq> map (\<lambda>channel. channel state2) (cycle_percentage_predictors self) \<longrightarrow>
      cycle_progress (snd (ModulationDifferencePenalty_call
          (snd (ModulationDifferencePenalty_call self state action next_state absorbing))
          state2 action2 next_state2 absorbing2))
        \<noteq> cycle_progress
            (snd (ModulationDifferencePenalty_call self state action next_state absorbing)))"
proof (intro conjI impI)
  show "cycle_progress (snd (ModulationDifferencePenalty_call self state action next_state absorbing)) =
     map (\<lambda>channel. channel state) (cycle_percentage_predictors self)"
    by (simp add: ModulationDifferencePenalty_call_state)
next
  define modulated where "modulated = action_space_modulator self action
    (map (\<lambda>channel. channel state) (cycle_percentage_predictors self))"
  assume "length (action_space_modulator self action
                (map (\<lambda>channel. channel state) (cycle_percentage_predictors self)))
        = length action"
  then have "fits (Array modulated) action"
    by (simp add: modulated_def)
  then have "broadcast2 (-) (Array action) (Array modulated) =
      Inr (Array (map (\<lambda>i. action ! i - modulated ! i) [0..<length action]))"
    using broadcast2_left_fits [of "Array modulated" action "(-)"] by simp
  then have "fst (ModulationDifferencePenalty_call self state action next_state absorbing) =
        Inr (- ModulationDifferencePenalty.reward_scale self *
               (\<Sum>i<length action. ModulationDifferencePenalty.func self (action ! i - modulated ! i)))"
    unfolding ModulationDifferencePenalty_call_reward modulated_def [symmetric]
    by (simp add: sum_list_map_upt_lessThan comp_def del: broadcast2.simps)
  then show "fst (ModulationDifferencePenalty_call self state action next_state absorbing) =
        Inr (- ModulationDifferencePenalty.reward_scale self *
               (\<Sum>i<length action. ModulationDifferencePenalty.func self
                  (action ! i
                   - action_space_modulator self action
                       (map (\<lambda>channel. channel state) (cycle_percentage_predictors self)) ! i)))"
    by (simp add: modulated_def)
next
  assume differ: "map (\<lambda>channel. channel state) (cycle_percentage_predictors self)
        \<noteq> map (\<lambda>channel. channel state2) (cycle_percentage_predictors self)"
  have first: "cycle_progress
      (snd (ModulationDifferencePenalty_call self state action next_state absorbing)) =
      map (\<lambda>channel. channel state) (cycle_percentage_predictors self)"
    by (simp add: ModulationDifferencePenalty_call_state)
  have second: "cycle_progress (snd (ModulationDifferencePenalty_call
          (snd (ModulationDifferencePenalty_call self state action next_state absorbing))
          state2 action2 next_state2 absorbing2)) =
      map (\<lambda>channel. channel state2) (cycle_percentage_predictors self)"
    by (simp add: ModulationDifferencePenalty_call_state)
  show "cycle_progress (snd (ModulationDifferencePenalty_call
          (snd (ModulationDifferencePenalty_call self state action next_state absorbing))
          state2 action2 next_state2 absorbing2))
        \<noteq> cycle_progress
            (snd (ModulationDifferencePenalty_call self state action next_state absorbing))"
    unfolding first second by (rule differ [symmetric])
qed

theorem ModulationDifferencePenalty_call_caches_witness:
  "fst (ModulationDifferencePenalty_call
     \<lparr>cycle_percentage_predictors = [sum_list, \<lambda>s. 2 * sum_list s],
      action_space_modulator = (\<lambda>action progress. map (\<lambda>x. x * sum_list progress) action),
      cycle_progress = [0, 0], reward_scale = 1, func = np_abs\<rparr>
     [1] [2, 4] [] False) = Inr (- 12)
   \<and> cycle_progress (snd (ModulationDifferencePenalty_call
     \<lparr>cycle_percentage_predictors = [sum_list, \<lambda>s. 2 * sum_list s],
      action_space_modulator = (\<lambda>action progress. map (\<lambda>x. x * sum_list progress) action),
      cycle_progress = [0, 0], reward_scale = 1, func = np_abs\<rparr>
     [1] [2, 4] [] False)) = [1, 2]
   \<and> cycle_progress (snd (ModulationDifferencePenalty_call
     (snd (ModulationDifferencePenalty_call
     \<lparr>cycle_percentage_predictors = [sum_list, \<lambda>s. 2 * sum_list s],
      action_space_modulator = (\<lambda>action progress. map (\<lambda>x. x * sum_list progress) action),
      cycle_progress = [0, 0], reward_scale = 1, func = np_abs\<rparr>
     [1] [2, 4] [] False)) [3] [2, 4] [] False)) \<noteq> [1, 2]"
  using ModulationDifferencePenalty_call_caches
    [of "\<lparr>cycle_percentage_predictors = [sum_list, \<lambda>s. 2 * sum_list s],
      action_space_modulator = (\<lambda>action progress. map (\<lambda>x. x * sum_list progress) action),
      cycle_progress = [0, 0], reward_scale = 1, func = np_abs\<rparr>"
     "[1]" "[2, 4]" "[]" False "[3]" "[2, 4]" "[]" False]
  by (auto simp: lessThan_Suc numeral_2_eq_2 np_abs_def)

section \<open>The common interface: reset and the absorbing flag\<close>

text \<open>
  Claim C9. \<open>reset_state\<close> returns every object as it is. In particular the object a
  \<open>ModulationDifferencePenalty\<close> call leaves behind is the same after a reset, and its
  \<open>cycle_progress\<close> is still the list of the predictors' results on the last observation.
\<close>

theorem reset_state_keeps_state:
  "reset_state self = self
   \<and> reset_state (snd (call m (ModulationDifference p) state action next_state absorbing)) =
       ModulationDifference
         (p\<lparr>cycle_progress := map (\<lambda>channel. channel state) (cycle_percentage_predictors p)\<rparr>)"
  by (simp add: reset_state_def ModulationDifferencePenalty_call_def Let_def)

text \<open>
  Claim C10. For an object of any of the ten classes, two calls that differ in the
  absorbing flag only return the same reward (or raise the same exception) and leave the
  same object.
\<close>

theorem call_ignores_absorbing:
  "call m self state action next_state absorbing = call m self state action next_state absorbing2"
  by (cases self)
    (simp_all add: NoReward_call_def PosReward_call_def CustomReward_call_def
      TargetVelocityReward_call_def MultiTargetVelocityReward_call_def
      VelocityVectorReward_call_def OutOfBoundsActionCost_call_def ActionCost_call_def
      InBoundsBonus_call_def ModulationDifferencePenalty_call_def)

section \<open>VelocityVectorReward\<close>

lemma linalg_norm_pair: "linalg_norm [a, b] = sqrt (a\<^sup>2 + b\<^sup>2)"
  by (simp add: linalg_norm_def power2_eq_square)

text \<open>
  Claim C7. Let \<open>v_x\<close>, \<open>v_y\<close> and \<open>speed\<close> be the entries of the observation at the two
  velocity indices and at the goal-velocity index, and let the nine entries at the
  rotation-matrix indices form the matrix \<open>rot_mat\<close>, row by row. With
  \<open>angle = mat2angle_xy rot_mat - pi / 2\<close>, \<open>VelocityVectorReward_call\<close> returns
  \<open>exp (- 5 * d)\<close> where \<open>d\<close> is the Euclidean distance between \<open>(v_x, v_y)\<close> and
  \<open>(speed * cos angle, speed * sin angle)\<close>.
\<close>

theorem VelocityVectorReward_call_distance:
  assumes "getitem state (VelocityVectorReward.x_vel_idx self) = Inr v_x"
    and "getitem state (y_vel_idx self) = Inr v_y"
    and "getitems state (rot_mat_idx self) = Inr entries"
    and "length entries = 9"
    and "getitem state (goal_vel_idx self) = Inr speed"
    and "angle = mat2angle_xy [take 3 entries, take 3 (drop 3 entries), drop 6 entries] - pi / 2"
  shows "VelocityVectorReward_call mat2angle_xy self state action next_state absorbing =
           Inr (exp (- 5 * sqrt ((v_x - speed * cos angle)\<^sup>2 + (v_y - speed * sin angle)\<^sup>2)))"
  using assms
  by (simp add: VelocityVectorReward_call_def reshape33_def Let_def linalg_norm_pair)

theorem VelocityVectorReward_call_distance_witness:
  "VelocityVectorReward_call (\<lambda>rot_mat. pi * (rot_mat ! 1 ! 1))
     (VelocityVectorReward_init 0 1 [2, 3, 4, 5, 6, 7, 8, 9, 10] (- 1))
     [4, 4, 0, 0, 0, 0, 1 / 2, 0, 0, 0, 0, 1] [] [] False = Inr (exp (- 5 * sqrt (3\<^sup>2 + 4\<^sup>2)))"
proof -
  let ?self = "VelocityVectorReward_init 0 1 [2, 3, 4, 5, 6, 7, 8, 9, 10] (- 1)"
  let ?state = "[4, 4, 0, 0, 0, 0, 1 / 2, 0, 0, 0, 0, 1] :: real list"
  let ?entries = "[0, 0, 0, 0, 1 / 2, 0, 0, 0, 0] :: real list"
  have 1: "getitem ?state (VelocityVectorReward.x_vel_idx ?self) = Inr 4"
    by (simp add: VelocityVectorReward_init_def getitem_def)
  have 2: "getitem ?state (y_vel_idx ?self) = Inr 4"
    by (simp add: VelocityVectorReward_init_def getitem_def)
  have 3: "getitems ?state (rot_mat_idx ?self) = Inr ?entries"
    by (simp add: VelocityVectorReward_init_def getitem_def)
  have 4: "length ?entries = 9"
    by simp
  have 5: "getitem ?state (goal_vel_idx ?self) = Inr 1"
    by (simp add: VelocityVectorReward_init_def getitem_def)
  have 6: "0 = (\<lambda>rot_mat. pi * (rot_mat ! 1 ! 1))
      [take 3 ?entries, take 3 (drop 3 ?entries), drop 6 ?entries] - pi / 2"
    by simp
  show ?thesis
    using VelocityVectorReward_call_distance
      [where mat2angle_xy = "\<lambda>rot_mat. pi * (rot_mat ! 1 ! 1)" and angle = 0
         and action = "[]" and next_state = "[]" and absorbing = False, OF 1 2 3 4 5 6]
    by simp
qed

section \<open>MultiTargetVelocityReward\<close>

lemma big_endian_integer_snoc:
  "big_endian_integer (bits @ [b]) = 2 * big_endian_integer bits + b"
  by (simp add: big_endian_integer_def)

lemma build_step:
  fixes build :: "8 word"
  assumes "unat build < 128" and "b = 0 \<or> b = 1"
  shows "unat (push_bit 1 build OR (if int b \<noteq> 0 then 1 else 0)) = 2 * unat build + b"
proof -
  have double: "unat (build * 2) = 2 * unat build"
    using assms(1) by (simp add: unat_word_ariths)
  from assms(2) show ?thesis
  proof
    assume "b = 0"
    then show ?thesis using double by (simp add: push_bit_eq_mult)
  next
    assume "b = 1"
    have "push_bit 1 build OR 1 = build * 2 + 1"
      by (simp add: or_one_eq push_bit_eq_mult)
    moreover have "unat (build * 2 + 1) = 2 * unat build + 1"
      using assms(1) double by (simp add: unat_word_ariths)
    ultimately show ?thesis using \<open>b = 1\<close> by simp
  qed
qed

lemma build_unat:
  "set bits \<subseteq> {0, 1} \<Longrightarrow> length bits \<le> 8 \<Longrightarrow>
   unat (foldl (\<lambda>build b. push_bit 1 build OR (if b \<noteq> 0 then 1 else 0)) (0 :: 8 word)
          (map int bits)) = big_endian_integer bits
   \<and> big_endian_integer bits < 2 ^ length bits"
proof (induction bits rule: rev_induct)
  case Nil
  show ?case by (simp add: big_endian_integer_def)
next
  case (snoc b bits)
  let ?build = "foldl (\<lambda>build b. push_bit 1 build OR (if b \<noteq> 0 then 1 else 0)) (0 :: 8 word)
          (map int bits)"
  from snoc.prems have b: "b = 0 \<or> b = 1" and len: "length bits < 8" and "set bits \<subseteq> {0, 1}"
    by auto
  with snoc.IH have unat: "unat ?build = big_endian_integer bits"
    and less: "big_endian_integer bits < 2 ^ length bits"
    by auto
  have "(2::nat) ^ length bits \<le> 2 ^ 7"
    using len by (intro power_increasing) auto
  with less unat have "unat ?build < 128"
    by simp
  then have "unat (push_bit 1 ?build OR (if int b \<noteq> 0 then 1 else 0)) = 2 * unat ?build + b"
    using b by (rule build_step)
  moreover have "2 * big_endian_integer bits + b < 2 ^ length (bits @ [b])"
    using less b by auto
  moreover have "foldl (\<lambda>build b. push_bit 1 build OR (if b \<noteq> 0 then 1 else 0)) (0 :: 8 word)
          (map int (bits @ [b])) = push_bit 1 ?build OR (if int b \<noteq> 0 then 1 else 0)"
    by simp
  ultimately show ?case
    unfolding big_endian_integer_snoc unat by (simp only: simp_thms)
qed

lemma pack_byte_shifted:
  assumes bits: "set bits \<subseteq> {0, 1}" and "1 \<le> length bits" and "length bits \<le> 8"
  shows "unat (drop_bit (8 - length bits) (pack_byte (map int bits))) = big_endian_integer bits"
proof -
  let ?m = "8 - length bits"
  define build where "build =
    foldl (\<lambda>build b. push_bit 1 build OR (if b \<noteq> 0 then 1 else 0)) (0 :: 8 word) (map int bits)"
  from build_unat [OF bits \<open>length bits \<le> 8\<close>]
  have unat: "unat build = big_endian_integer bits"
    and less: "big_endian_integer bits < 2 ^ length bits"
    unfolding build_def by auto
  have m: "?m < 8"
    using assms by simp
  then have "(2::nat) ^ ?m < 2 ^ 8"
    by (intro power_strict_increasing) auto
  moreover have "(2 ^ ?m :: 8 word) = of_nat (2 ^ ?m)"
    by simp
  ultimately have two: "unat (2 ^ ?m :: 8 word) = 2 ^ ?m"
    by (simp only: unat_of_nat) simp
  have "big_endian_integer bits * 2 ^ ?m < 2 ^ length bits * 2 ^ ?m"
    using less by simp
  also have "\<dots> = 2 ^ 8"
    using assms by (simp flip: power_add)
  finally have fit: "big_endian_integer bits * 2 ^ ?m < 256"
    by simp
  have "unat (push_bit ?m build) = big_endian_integer bits * 2 ^ ?m"
    using fit by (simp add: push_bit_eq_mult unat_word_ariths two unat)
  then have "unat (drop_bit ?m (push_bit ?m build)) = big_endian_integer bits"
    by (simp only: unat_drop_bit_eq) (simp add: drop_bit_eq_div)
  then show ?thesis
    by (simp only: pack_byte_def length_map build_def)
qed

lemma astype_int_of_nat: "astype_int (real n) = int n"
  by (simp add: astype_int_def)

lemma env_id_index_bits:
  assumes bits: "set bits \<subseteq> {0, 1}" and "1 \<le> length bits" and "length bits \<le> 8"
  shows "env_id_index (map real bits) = Inr (big_endian_integer bits)"
proof -
  from \<open>1 \<le> length bits\<close> obtain b bs where cons: "bits = b # bs"
    by (cases bits) auto
  with \<open>length bits \<le> 8\<close> have "packbits (map int bits) = [pack_byte (map int bits)]"
    by simp
  then have "env_id_index (map real bits) =
      Inr (unat (drop_bit (8 - length bits) (pack_byte (map int bits))))"
    using \<open>length bits \<le> 8\<close>
    by (simp add: env_id_index_def right_shift_def nat_diff_distrib'
        astype_int_of_nat comp_def del: packbits.simps)
  then show ?thesis
    using pack_byte_shifted [OF assms] by simp
qed

lemma slice_from_trailing:
  "1 \<le> length ys \<Longrightarrow> slice_from (xs @ ys) (- int (length ys)) = ys"
  by (auto simp: slice_from_def Let_def)

text \<open>
  Claim C2. Let the observation end with \<open>env_id_len\<close> entries that are the bits (each 0
  or 1) of an environment id, where \<open>env_id_len\<close> is between 1 and 8. Then the index the
  code computes by packing the bits into a byte and shifting is the big-endian integer of
  the bits, and \<open>MultiTargetVelocityReward_call\<close> returns
  \<open>exp (- (x_vel - target_vel * scalings[ind])\<^sup>2)\<close> for that index \<open>ind\<close>, provided it is
  within \<open>scalings\<close>. With two bits and the scalings \<open>[1, 2, 3, 4]\<close>, the bits \<open>[1, 0]\<close>
  give the index 2 and the target velocity is scaled by 3.
\<close>

theorem MultiTargetVelocityReward_call_scaled:
  assumes "set bits \<subseteq> {0, 1}" and "1 \<le> length bits" and "length bits \<le> 8"
    and "env_id_len self = int (length bits)"
    and "state = obs @ map real bits"
    and "getitem state (MultiTargetVelocityReward.x_vel_idx self) = Inr x_vel"
    and "big_endian_integer bits < length (scalings self)"
  shows "env_id_index (map real bits) = Inr (big_endian_integer bits)
       \<and> MultiTargetVelocityReward_call self state action next_state absorbing =
           Inr (exp (- (x_vel - MultiTargetVelocityReward.target_vel self
                                  * scalings self ! big_endian_integer bits)\<^sup>2))
       \<and> env_id_index [1, 0] = Inr 2
       \<and> MultiTargetVelocityReward_call (MultiTargetVelocityReward_init target 0 2 [1, 2, 3, 4])
             [vel, 1, 0] action2 next_state2 absorbing2 =
           Inr (exp (- (vel - target * 3)\<^sup>2))"
proof -
  have decode: "env_id_index (map real bits) = Inr (big_endian_integer bits)"
    using assms(1-3) by (rule env_id_index_bits)
  have "slice_from state (- env_id_len self) = map real bits"
    using assms(2,4,5) slice_from_trailing [of "map real bits" obs] by simp
  then have general: "MultiTargetVelocityReward_call self state action next_state absorbing =
           Inr (exp (- (x_vel - MultiTargetVelocityReward.target_vel self
                                  * scalings self ! big_endian_integer bits)\<^sup>2))"
    using assms(6,7) decode
    by (simp add: MultiTargetVelocityReward_call_def list_item_def np_square_def power2_eq_square
        Let_def)
  have two: "env_id_index (map real [1, 0]) = Inr (big_endian_integer [1, 0])"
    by (rule env_id_index_bits) auto
  then have index: "env_id_index [1, 0] = Inr 2"
    by (simp add: big_endian_integer_def)
  have "slice_from [vel, 1, 0] (- 2) = [1, 0]"
    by (simp add: slice_from_def)
  then have "MultiTargetVelocityReward_call (MultiTargetVelocityReward_init target 0 2 [1, 2, 3, 4])
             [vel, 1, 0] action2 next_state2 absorbing2 =
           Inr (exp (- (vel - target * 3)\<^sup>2))"
    using index
    by (simp add: MultiTargetVelocityReward_call_def MultiTargetVelocityReward_init_def
        getitem_def list_item_def np_square_def power2_eq_square Let_def)
  with decode general index show ?thesis
    by simp
qed

theorem MultiTargetVelocityReward_call_scaled_witness:
  "env_id_index [1, 0, 1] = Inr 5
   \<and> MultiTargetVelocityReward_call
       (MultiTargetVelocityReward_init 2 0 3 [10, 11, 12, 13, 14, 15, 16, 17])
       [31, 1, 0, 1] [] [] False = Inr (exp (- 1))"
proof -
  let ?self = "MultiTargetVelocityReward_init 2 0 3 [10, 11, 12, 13, 14, 15, 16, 17]"
  have 1: "set [1, 0, 1 :: nat] \<subseteq> {0, 1}"
    by simp
  have 2: "1 \<le> length [1, 0, 1 :: nat]"
    by simp
  have 3: "length [1, 0, 1 :: nat] \<le> 8"
    by simp
  have 4: "env_id_len ?self = int (length [1, 0, 1 :: nat])"
    by (simp add: MultiTargetVelocityReward_init_def)
  have 5: "[31, 1, 0, 1] = [31] @ map real [1, 0, 1]"
    by simp
  have 6: "getitem [31, 1, 0, 1] (MultiTargetVelocityReward.x_vel_idx ?self) = Inr 31"
    by (simp add: MultiTargetVelocityReward_init_def getitem_def)
  have 7: "big_endian_integer [1, 0, 1] < length (scalings ?self)"
    by (simp add: MultiTargetVelocityReward_init_def big_endian_integer_def)
  show ?thesis
    using MultiTargetVelocityReward_call_scaled [OF 1 2 3 4 5 6 7, of "[]" "[]" False]
    by (simp add: MultiTargetVelocityReward_init_def big_endian_integer_def)
qed

end
